theory Spec2Isabelle
  imports
    Main
    "HOL-Library.Word"
    "HOL-Library.AList"
    "HOL-Library.Multiset"
    "HOL-Library.Char_ord"
    "HOL-Library.List_Lexorder"
begin

section \<open>The resource manager of the VRAM server\<close>

text \<open>
  This theory embeds \<^verbatim>\<open>vram-system/server/resource_manager.py\<close>: the class
  \<^verbatim>\<open>ResourceManager\<close>, which keeps one payload file per resource identifier in a
  directory, and a metadata dictionary with the two sub-dictionaries \<^verbatim>\<open>resources\<close>
  and \<^verbatim>\<open>versions\<close>, mirrored in the file \<^verbatim>\<open>metadata.json\<close>.

  Python dictionaries keep their keys in insertion order, and \<^verbatim>\<open>list_resources\<close>
  iterates over one, so both dictionaries are association lists: assignment to a
  key replaces the value in place or appends a new entry, \<^verbatim>\<open>del\<close> removes the entry.
  Byte strings are lists of 8-bit words, Python's \<^verbatim>\<open>str\<close> is \<open>string\<close>, and the
  ISO timestamps are compared as Python compares strings, lexicographically.
\<close>

subsection \<open>Data\<close>

type_synonym bytes = "8 word list"

text \<open>The dictionary stored under \<^verbatim>\<open>metadata["resources"][resource_id]\<close>.\<close>

record resource_meta =
  type_m :: string
  size_m :: nat
  compressed_size :: nat
  hash :: string
  compressed :: bool
  priority :: int
  created :: string
  last_accessed :: string
  access_count :: nat

text \<open>\<^verbatim>\<open>self.metadata\<close>: \<^verbatim>\<open>{"resources": {...}, "versions": {...}}\<close>.\<close>

record metadata =
  resources :: "(string \<times> resource_meta) list"
  versions :: "(string \<times> int) list"

text \<open>
  What \<^verbatim>\<open>metadata.json\<close> holds: nothing (the file does not exist), text that
  \<^verbatim>\<open>json.load\<close> rejects, or the serialisation of a metadata dictionary.
\<close>

datatype metadata_json = Absent | Unparseable | Parsed metadata

text \<open>
  The manager together with the part of the file system it owns: the payload
  files and the metadata file. A payload file is kept under the name of the file
  itself, and \<open>resolve\<close> is the path resolution of the operating system: it tells
  which file a path given to \<^verbatim>\<open>open\<close>, \<^verbatim>\<open>os.path.exists\<close> or \<^verbatim>\<open>os.remove\<close> names, so
  that two paths such as \<^verbatim>\<open>resources/a.bin\<close> and \<^verbatim>\<open>resources/./a.bin\<close> reach one file.
  The manager never changes it. Links, and a payload path that names
  \<^verbatim>\<open>metadata.json\<close>, are left out.
\<close>

record state =
  resources_dir :: string
  resolve :: "string \<Rightarrow> string"
  metadata :: metadata
  files :: "string \<rightharpoonup> bytes"
  metadata_file :: metadata_json

subsection \<open>The libraries and the environment\<close>

text \<open>
  \<^verbatim>\<open>hashlib.sha256(data).hexdigest()\<close>, \<^verbatim>\<open>gzip.compress\<close> and \<^verbatim>\<open>gzip.decompress\<close>
  belong to Python's standard library, not to this repository; the manager takes
  them as they are. \<open>gzip_decompress\<close> returns \<open>None\<close> where the library raises.
\<close>

record lib =
  sha256_hexdigest :: "bytes \<Rightarrow> string"
  gzip_compress :: "bytes \<Rightarrow> bytes"
  gzip_decompress :: "bytes \<Rightarrow> bytes option"

text \<open>
  What the operating system does during one call. Writing the payload file is
  \<^verbatim>\<open>open(file_path, 'wb')\<close>, which creates or truncates the file, followed by
  \<^verbatim>\<open>f.write(storage_data)\<close>: either both succeed, or \<^verbatim>\<open>open\<close> raises and the file is
  untouched, or \<^verbatim>\<open>write\<close> raises after some number of bytes reached the file.
\<close>

datatype write_io = Write_ok | Open_fails | Write_fails nat

text \<open>
  Writing \<^verbatim>\<open>metadata.json\<close> is \<^verbatim>\<open>open(..., 'w')\<close> followed by \<^verbatim>\<open>json.dump\<close>; a dump
  that raises half-way leaves a truncated document.
\<close>

datatype save_io = Save_ok | Save_open_fails | Save_dump_fails

record env =
  payload_write :: write_io
  payload_read_fails :: bool
  payload_remove_fails :: bool
  metadata_save :: save_io
  metadata_read_fails :: bool
  now_first :: string
  now_second :: string

text \<open>The lines the manager writes to its logger.\<close>

datatype log_event =
    Error_loading_metadata
  | Error_saving_metadata
  | Stored_resource string nat
  | Error_storing_resource string
  | Hash_mismatch string
  | Retrieved_resource string
  | Error_retrieving_resource string
  | Deleted_resource string
  | Error_deleting_resource string

subsection \<open>Paths\<close>

text \<open>\<^verbatim>\<open>os.path.join(a, b)\<close> on POSIX, for two components.\<close>

definition os_path_join :: "string \<Rightarrow> string \<Rightarrow> string" where
  "os_path_join a b =
     (if b \<noteq> [] \<and> hd b = CHR ''/'' then b
      else if a = [] \<or> last a = CHR ''/'' then a @ b
      else a @ ''/'' @ b)"

text \<open>\<^verbatim>\<open>os.path.join(self.resources_dir, f"{resource_id}.bin")\<close>\<close>

definition file_path :: "state \<Rightarrow> string \<Rightarrow> string" where
  "file_path st resource_id = os_path_join (resources_dir st) (resource_id @ ''.bin'')"

subsection \<open>Metadata file\<close>

definition empty_metadata :: metadata where
  "empty_metadata = \<lparr>resources = [], versions = []\<rparr>"

text \<open>\<^verbatim>\<open>_load_metadata\<close>: the parsed file, or empty dictionaries.\<close>

definition load_metadata :: "env \<Rightarrow> metadata_json \<Rightarrow> metadata \<times> log_event list" where
  "load_metadata e f =
     (case f of
        Absent \<Rightarrow> (empty_metadata, [])
      | Unparseable \<Rightarrow> (empty_metadata, [Error_loading_metadata])
      | Parsed m \<Rightarrow>
          if metadata_read_fails e then (empty_metadata, [Error_loading_metadata])
          else (m, []))"

text \<open>\<^verbatim>\<open>__init__\<close>: the manager over an existing directory.\<close>

definition init ::
  "env \<Rightarrow> string \<Rightarrow> (string \<Rightarrow> string) \<Rightarrow> (string \<rightharpoonup> bytes) \<Rightarrow> metadata_json
     \<Rightarrow> state \<times> log_event list" where
  "init e dir rs fs f =
     (let (m, lg) = load_metadata e f
      in (\<lparr>resources_dir = dir, resolve = rs, metadata = m, files = fs,
           metadata_file = f\<rparr>, lg))"

text \<open>\<^verbatim>\<open>_save_metadata\<close>: never raises; an error is logged and dropped.\<close>

definition save_metadata :: "env \<Rightarrow> state \<Rightarrow> state \<times> log_event list" where
  "save_metadata e st =
     (case metadata_save e of
        Save_ok \<Rightarrow> (st\<lparr>metadata_file := Parsed (metadata st)\<rparr>, [])
      | Save_open_fails \<Rightarrow> (st, [Error_saving_metadata])
      | Save_dump_fails \<Rightarrow> (st\<lparr>metadata_file := Unparseable\<rparr>, [Error_saving_metadata]))"

subsection \<open>Hashing and compression\<close>

definition calculate_hash :: "lib \<Rightarrow> bytes \<Rightarrow> string" where
  "calculate_hash l data = sha256_hexdigest l data"

definition compress_data :: "lib \<Rightarrow> bytes \<Rightarrow> bytes" where
  "compress_data l data = gzip_compress l data"

definition decompress_data :: "lib \<Rightarrow> bytes \<Rightarrow> bytes option" where
  "decompress_data l compressed_data = gzip_decompress l compressed_data"

subsection \<open>Storing\<close>

text \<open>
  The dictionary \<^verbatim>\<open>store_resource\<close> returns: the success descriptor with
  \<^verbatim>\<open>resource_id\<close>, \<^verbatim>\<open>size\<close>, \<^verbatim>\<open>compressed_size\<close>, \<^verbatim>\<open>version\<close> and \<^verbatim>\<open>hash\<close>, or the error
  descriptor (its message is the text of the exception, which is left out).
\<close>

datatype store_result =
    Store_success string nat nat int string
  | Store_error

fun is_success :: "store_result \<Rightarrow> bool" where
  "is_success (Store_success _ _ _ _ _) = True"
| "is_success Store_error = False"

fun version_of :: "store_result \<Rightarrow> int option" where
  "version_of (Store_success _ _ _ v _) = Some v"
| "version_of Store_error = None"

fun hash_of :: "store_result \<Rightarrow> string option" where
  "hash_of (Store_success _ _ _ _ h) = Some h"
| "hash_of Store_error = None"

text \<open>\<^verbatim>\<open>d.get(k, default)\<close>\<close>

definition dict_get :: "('k \<times> 'v) list \<Rightarrow> 'k \<Rightarrow> 'v \<Rightarrow> 'v" where
  "dict_get d k dflt = (case map_of d k of None \<Rightarrow> dflt | Some v \<Rightarrow> v)"

text \<open>
  \<^verbatim>\<open>store_resource\<close>. Hashing and compressing do not raise; the \<^verbatim>\<open>except\<close> branch is
  reached from \<^verbatim>\<open>open\<close> or \<^verbatim>\<open>write\<close>, before any metadata is assigned, or from the
  final lookup \<^verbatim>\<open>self.metadata["versions"][resource_id]\<close>, were the key missing.
\<close>

definition store_resource ::
  "lib \<Rightarrow> env \<Rightarrow> state \<Rightarrow> string \<Rightarrow> bytes \<Rightarrow> string \<Rightarrow> int \<Rightarrow> bool
     \<Rightarrow> store_result \<times> state \<times> log_event list" where
  "store_resource l e st resource_id data resource_type prio compress =
     (let data_hash = calculate_hash l data;
          storage_data = (if compress then compress_data l data else data);
          fp = file_path st resource_id
      in case payload_write e of
           Open_fails \<Rightarrow> (Store_error, st, [Error_storing_resource resource_id])
         | Write_fails n \<Rightarrow>
             (Store_error, st\<lparr>files := (files st)(resolve st fp \<mapsto> take n storage_data)\<rparr>,
              [Error_storing_resource resource_id])
         | Write_ok \<Rightarrow>
             (let st1 = st\<lparr>files := (files st)(resolve st fp \<mapsto> storage_data)\<rparr>;
                  meta = \<lparr>type_m = resource_type,
                          size_m = length data,
                          compressed_size = length storage_data,
                          hash = data_hash,
                          compressed = compress,
                          priority = prio,
                          created = now_first e,
                          last_accessed = now_second e,
                          access_count = 0\<rparr>;
                  md = metadata st1;
                  md1 = md\<lparr>resources := AList.update resource_id meta (resources md)\<rparr>;
                  md2 = md1\<lparr>versions :=
                          AList.update resource_id (dict_get (versions md1) resource_id 0 + 1)
                            (versions md1)\<rparr>;
                  (st2, lg) = save_metadata e (st1\<lparr>metadata := md2\<rparr>)
              in case map_of (versions (metadata st2)) resource_id of
                   None \<Rightarrow> (Store_error, st2, lg @ [Error_storing_resource resource_id])
                 | Some v \<Rightarrow>
                     (Store_success resource_id (length data) (length storage_data) v data_hash,
                      st2,
                      lg @ [Stored_resource resource_id (length data)])))"

subsection \<open>Retrieving\<close>

text \<open>
  \<^verbatim>\<open>get_resource\<close>. Every failure returns \<^verbatim>\<open>None\<close>: an unknown identifier and a
  missing payload file silently, a hash mismatch after logging it, and an
  exception (reading the file, or \<^verbatim>\<open>gzip.decompress\<close> rejecting the bytes) through
  the \<^verbatim>\<open>except\<close> branch.
\<close>

definition get_resource ::
  "lib \<Rightarrow> env \<Rightarrow> state \<Rightarrow> string
     \<Rightarrow> (bytes \<times> resource_meta) option \<times> state \<times> log_event list" where
  "get_resource l e st resource_id =
     (case map_of (resources (metadata st)) resource_id of
        None \<Rightarrow> (None, st, [])
      | Some resource_meta \<Rightarrow>
          (case files st (resolve st (file_path st resource_id)) of
             None \<Rightarrow> (None, st, [])
           | Some storage_data \<Rightarrow>
               if payload_read_fails e
               then (None, st, [Error_retrieving_resource resource_id])
               else
                 (case (if compressed resource_meta
                        then decompress_data l storage_data
                        else Some storage_data) of
                    None \<Rightarrow> (None, st, [Error_retrieving_resource resource_id])
                  | Some data \<Rightarrow>
                      if calculate_hash l data \<noteq> hash resource_meta
                      then (None, st, [Hash_mismatch resource_id])
                      else
                        (let meta1 = resource_meta\<lparr>last_accessed := now_first e\<rparr>;
                             meta2 = meta1\<lparr>access_count := access_count meta1 + 1\<rparr>;
                             md = metadata st;
                             st1 = st\<lparr>metadata :=
                                     md\<lparr>resources :=
                                          AList.update resource_id meta2 (resources md)\<rparr>\<rparr>;
                             (st2, lg) = save_metadata e st1
                         in (Some (data, meta2), st2,
                             lg @ [Retrieved_resource resource_id])))))"

subsection \<open>Listing\<close>

text \<open>One entry of the list \<^verbatim>\<open>list_resources\<close> returns.\<close>

record summary =
  s_id :: string
  s_type :: string
  s_size :: nat
  s_compressed_size :: nat
  s_priority :: int
  s_version :: int
  s_last_accessed :: string
  s_access_count :: nat

text \<open>
  \<^verbatim>\<open>sorted(xs, key=k, reverse=True)\<close>: Python reverses the list, sorts it stably
  in ascending order and reverses the result, so that equal keys keep the order in
  which they came.
\<close>

definition sorted_reverse :: "('a \<Rightarrow> 'k::linorder) \<Rightarrow> 'a list \<Rightarrow> 'a list" where
  "sorted_reverse k xs = rev (sort_key k (rev xs))"

definition matches :: "string option \<Rightarrow> resource_meta \<Rightarrow> bool" where
  "matches resource_type meta =
     (case resource_type of None \<Rightarrow> True | Some t \<Rightarrow> type_m meta = t)"

definition summarize :: "state \<Rightarrow> string \<times> resource_meta \<Rightarrow> summary" where
  "summarize st = (\<lambda>(resource_id, meta).
     \<lparr>s_id = resource_id,
      s_type = type_m meta,
      s_size = size_m meta,
      s_compressed_size = compressed_size meta,
      s_priority = priority meta,
      s_version = dict_get (versions (metadata st)) resource_id 1,
      s_last_accessed = last_accessed meta,
      s_access_count = access_count meta\<rparr>)"

definition list_resources :: "state \<Rightarrow> string option \<Rightarrow> summary list" where
  "list_resources st resource_type =
     sorted_reverse s_last_accessed
       (map (summarize st)
          (filter (\<lambda>(resource_id, meta). matches resource_type meta)
             (resources (metadata st))))"

subsection \<open>Versions\<close>

definition check_version :: "state \<Rightarrow> string \<Rightarrow> int option" where
  "check_version st resource_id = map_of (versions (metadata st)) resource_id"

subsection \<open>Deleting\<close>

text \<open>
  \<^verbatim>\<open>delete_resource\<close>. \<^verbatim>\<open>os.remove\<close> is called only on a file that exists; when it
  raises, the \<^verbatim>\<open>except\<close> branch returns \<^verbatim>\<open>False\<close> before anything was changed.
\<close>

definition delete_resource :: "env \<Rightarrow> state \<Rightarrow> string \<Rightarrow> bool \<times> state \<times> log_event list" where
  "delete_resource e st resource_id =
     (if resource_id \<notin> set (map fst (resources (metadata st))) then (False, st, [])
      else
        (let fp = file_path st resource_id
         in if files st (resolve st fp) \<noteq> None \<and> payload_remove_fails e
            then (False, st, [Error_deleting_resource resource_id])
            else
              (let st1 = st\<lparr>files := (files st)(resolve st fp := None)\<rparr>;
                   md = metadata st1;
                   md1 = md\<lparr>resources := AList.delete resource_id (resources md)\<rparr>;
                   md2 = (if resource_id \<in> set (map fst (versions md1))
                          then md1\<lparr>versions := AList.delete resource_id (versions md1)\<rparr>
                          else md1);
                   (st2, lg) = save_metadata e (st1\<lparr>metadata := md2\<rparr>)
               in (True, st2, lg @ [Deleted_resource resource_id]))))"

subsection \<open>Statistics\<close>

text \<open>
  \<^verbatim>\<open>a / b\<close> on Python integers is a floating-point number. The model keeps the
  two operands instead of a rounded value, and keeps the integer \<^verbatim>\<open>0\<close> of the
  other branch apart from it.
\<close>

datatype number = Int_value int | True_div nat nat

record storage_stats =
  resource_count :: nat
  total_size :: nat
  total_compressed_size :: nat
  compression_ratio :: number
  disk_usage_mb :: number

text \<open>The loop over \<^verbatim>\<open>self.metadata["resources"].values()\<close>.\<close>

fun totals :: "resource_meta list \<Rightarrow> nat \<times> nat \<Rightarrow> nat \<times> nat" where
  "totals [] acc = acc"
| "totals (meta # metas) (tsize, tcompressed) =
     totals metas (tsize + size_m meta, tcompressed + compressed_size meta)"

definition get_storage_stats :: "state \<Rightarrow> storage_stats" where
  "get_storage_stats st =
     (let rs = resources (metadata st);
          (tsize, tcompressed) = totals (map snd rs) (0, 0)
      in \<lparr>resource_count = length rs,
          total_size = tsize,
          total_compressed_size = tcompressed,
          compression_ratio =
            (if tsize > 0 then True_div tcompressed tsize else Int_value 0),
          disk_usage_mb = True_div tcompressed (1024 * 1024)\<rparr>)"

subsection \<open>The public operations as one step\<close>

text \<open>
  The six operations the HTTP layer calls. \<^verbatim>\<open>list_resources\<close>, \<^verbatim>\<open>check_version\<close> and
  \<^verbatim>\<open>get_storage_stats\<close> assign to nothing, so they hand the state on as it is.
\<close>

datatype operation =
    Store_op string bytes string int bool
  | Get_op string
  | List_op "string option"
  | Check_version_op string
  | Delete_op string
  | Stats_op

datatype response =
    Store_res store_result
  | Get_res "(bytes \<times> resource_meta) option"
  | List_res "summary list"
  | Check_version_res "int option"
  | Delete_res bool
  | Stats_res storage_stats

fun perform :: "lib \<Rightarrow> env \<Rightarrow> state \<Rightarrow> operation \<Rightarrow> response \<times> state" where
  "perform l e st (Store_op resource_id data resource_type prio compress) =
     (let (r, st', lg) = store_resource l e st resource_id data resource_type prio compress
      in (Store_res r, st'))"
| "perform l e st (Get_op resource_id) =
     (let (r, st', lg) = get_resource l e st resource_id in (Get_res r, st'))"
| "perform l e st (List_op resource_type) = (List_res (list_resources st resource_type), st)"
| "perform l e st (Check_version_op resource_id) =
     (Check_version_res (check_version st resource_id), st)"
| "perform l e st (Delete_op resource_id) =
     (let (r, st', lg) = delete_resource e st resource_id in (Delete_res r, st'))"
| "perform l e st Stats_op = (Stats_res (get_storage_stats st), st)"

text \<open>A sequence of calls, each with the environment it meets.\<close>

fun run :: "lib \<Rightarrow> state \<Rightarrow> (env \<times> operation) list \<Rightarrow> state" where
  "run l st [] = st"
| "run l st ((e, opn) # rest) = run l (snd (perform l e st opn)) rest"

subsection \<open>Record and version counter in step\<close>

text \<open>
  An identifier has a record exactly when it has a version counter: the two
  dictionaries have the same keys.
\<close>

definition in_sync :: "metadata \<Rightarrow> bool" where
  "in_sync m = (set (map fst (resources m)) = set (map fst (versions m)))"

subsection \<open>Concrete instances\<close>

text \<open>
  Values on which the definitions above are evaluated: a small library (a digest
  of one character per byte, a compressor that puts the two gzip magic bytes in
  front of the data), an environment without failures, a file system without
  links, and the manager started on an empty directory.
\<close>

text \<open>
  Path resolution without links: the components of a path between slashes, with
  the empty ones and the ones that are \<^verbatim>\<open>.\<close> skipped.
\<close>

fun split_path :: "string \<Rightarrow> string list" where
  "split_path [] = [[]]"
| "split_path (c # cs) =
     (if c = CHR ''/'' then [] # split_path cs
      else (case split_path cs of [] \<Rightarrow> [[c]] | x # xs \<Rightarrow> (c # x) # xs))"

fun join_path :: "string list \<Rightarrow> string" where
  "join_path [] = []"
| "join_path [x] = x"
| "join_path (x # y # ys) = x @ ''/'' @ join_path (y # ys)"

definition example_resolve :: "string \<Rightarrow> string" where
  "example_resolve path =
     (if path \<noteq> [] \<and> hd path = CHR ''/'' then ''/'' else [])
       @ join_path (filter (\<lambda>c. c \<noteq> [] \<and> c \<noteq> ''.'') (split_path path))"

definition example_lib :: lib where
  "example_lib =
     \<lparr>sha256_hexdigest = map (\<lambda>b. if even b then CHR ''0'' else CHR ''1''),
      gzip_compress = (\<lambda>d. 31 # 139 # d),
      gzip_decompress =
        (\<lambda>c. case c of
               a # b # d \<Rightarrow> if a = 31 \<and> b = 139 then Some d else None
             | _ \<Rightarrow> None)\<rparr>"

definition example_env :: env where
  "example_env =
     \<lparr>payload_write = Write_ok,
      payload_read_fails = False,
      payload_remove_fails = False,
      metadata_save = Save_ok,
      metadata_read_fails = False,
      now_first = ''2024-01-01T10:00:00'',
      now_second = ''2024-01-01T10:00:00.000012''\<rparr>"

definition example_state :: state where
  "example_state = fst (init example_env ''resources'' example_resolve Map.empty Absent)"

definition hello_world :: bytes where
  "hello_world = [104, 101, 108, 108, 111, 32, 119, 111, 114, 108, 100]"

definition hello_again :: bytes where
  "hello_again = [104, 101, 108, 108, 111, 32, 97, 103, 97, 105, 110]"

text \<open>The state after \<^verbatim>\<open>store_resource("a", b"hello world", "text", 1, True)\<close>.\<close>

definition stored_state :: state where
  "stored_state =
     fst (snd (store_resource example_lib example_env example_state
                 ''a'' hello_world ''text'' 1 True))"

text \<open>An environment in which \<^verbatim>\<open>f.write\<close> raises before any byte is written.\<close>

definition failing_env :: env where
  "failing_env = example_env\<lparr>payload_write := Write_fails 0\<rparr>"

text \<open>An environment in which \<^verbatim>\<open>os.remove\<close> raises.\<close>

definition remove_failing_env :: env where
  "remove_failing_env = example_env\<lparr>payload_remove_fails := True\<rparr>"

text \<open>
  Three resources, two of type \<^verbatim>\<open>text\<close> and one of type \<^verbatim>\<open>binary\<close>, last read at
  10:01, 10:03 and 10:02.
\<close>

definition listing_meta :: "string \<Rightarrow> string \<Rightarrow> resource_meta" where
  "listing_meta ty t =
     \<lparr>type_m = ty, size_m = 11, compressed_size = 13, hash = ''01001011000'',
      compressed = True, priority = 1, created = ''2024-01-01T10:00:00'',
      last_accessed = t, access_count = 1\<rparr>"

definition listing_state :: state where
  "listing_state =
     \<lparr>resources_dir = ''resources'',
      resolve = example_resolve,
      metadata =
        \<lparr>resources = [(''x'', listing_meta ''text'' ''2024-01-01T10:01:00''),
                      (''y'', listing_meta ''binary'' ''2024-01-01T10:03:00''),
                      (''z'', listing_meta ''text'' ''2024-01-01T10:02:00.000500'')],
         versions = [(''x'', 1), (''y'', 4), (''z'', 2)]\<rparr>,
      files = Map.empty,
      metadata_file = Absent\<rparr>"

section \<open>Properties\<close>

subsection \<open>What saving and path building leave alone\<close>

lemma save_metadata_metadata: "metadata (fst (save_metadata e st)) = metadata st"
  by (simp add: save_metadata_def split: save_io.split)

lemma save_metadata_files: "files (fst (save_metadata e st)) = files st"
  by (simp add: save_metadata_def split: save_io.split)

lemma save_metadata_dir: "resources_dir (fst (save_metadata e st)) = resources_dir st"
  by (simp add: save_metadata_def split: save_io.split)

lemma save_metadata_resolve [simp]: "resolve (fst (save_metadata e st)) = resolve st"
  by (simp add: save_metadata_def split: save_io.split)

lemma file_path_save: "file_path (fst (save_metadata e st)) rid = file_path st rid"
  by (simp add: file_path_def save_metadata_dir)

lemma file_path_update [simp]:
  "file_path (st\<lparr>files := f\<rparr>) rid = file_path st rid"
  "file_path (st\<lparr>metadata := m\<rparr>) rid = file_path st rid"
  "file_path (st\<lparr>metadata_file := mf\<rparr>) rid = file_path st rid"
  by (simp_all add: file_path_def)

lemma keys_update: "set (map fst (AList.update k v al)) = insert k (set (map fst al))"
  using AList.dom_update [of k v al] by simp

lemma keys_delete: "set (map fst (AList.delete k al)) = set (map fst al) - {k}"
  by (simp add: AList.delete_keys)

subsection \<open>The outcomes of \<open>store_resource\<close>\<close>

text \<open>The store succeeds exactly when the payload file could be written.\<close>

lemma store_success_iff:
  "is_success (fst (store_resource l e st rid data ty pr c)) \<longleftrightarrow> payload_write e = Write_ok"
  by (simp add: store_resource_def Let_def dict_get_def split_beta AList.update_conv'
      save_metadata_metadata split: write_io.split option.split)

lemma store_success_state:
  assumes "payload_write e = Write_ok"
  shows "store_resource l e st rid data ty pr c =
     (let data_hash = calculate_hash l data;
          storage_data = (if c then compress_data l data else data);
          meta = \<lparr>type_m = ty, size_m = length data, compressed_size = length storage_data,
                  hash = data_hash, compressed = c, priority = pr, created = now_first e,
                  last_accessed = now_second e, access_count = 0\<rparr>;
          v = dict_get (versions (metadata st)) rid 0 + 1;
          st1 = st\<lparr>files := (files st)(resolve st (file_path st rid) \<mapsto> storage_data),
                   metadata := (metadata st)
                     \<lparr>resources := AList.update rid meta (resources (metadata st)),
                      versions := AList.update rid v (versions (metadata st))\<rparr>\<rparr>
      in (Store_success rid (length data) (length storage_data) v data_hash,
          fst (save_metadata e st1),
          snd (save_metadata e st1) @ [Stored_resource rid (length data)]))"
  using assms
  by (simp add: store_resource_def Let_def dict_get_def split_beta AList.update_conv'
      save_metadata_metadata split: write_io.split option.split)

lemma store_resource_keys:
  "payload_write e = Write_ok \<Longrightarrow>
     set (map fst (resources (metadata (fst (snd (store_resource l e st rid data ty pr c))))))
       = insert rid (set (map fst (resources (metadata st)))) \<and>
     set (map fst (versions (metadata (fst (snd (store_resource l e st rid data ty pr c))))))
       = insert rid (set (map fst (versions (metadata st))))"
  unfolding store_success_state
  by (simp add: Let_def save_metadata_metadata keys_update del: set_map)

lemma store_resource_failed_metadata:
  "payload_write e \<noteq> Write_ok \<Longrightarrow>
     metadata (fst (snd (store_resource l e st rid data ty pr c))) = metadata st"
  by (cases "payload_write e") (simp_all add: store_resource_def Let_def)

subsection \<open>The outcomes of \<open>get_resource\<close>\<close>

text \<open>
  Whatever \<open>get_resource\<close> hands out was read from the payload file of a known
  identifier and has the digest its record holds.
\<close>

lemma get_resource_served:
  assumes "get_resource l e st rid = (Some (d, m), st', lg)"
  shows "\<exists>m0 sd. map_of (resources (metadata st)) rid = Some m0 \<and>
           files st (resolve st (file_path st rid)) = Some sd \<and>
           \<not> payload_read_fails e \<and>
           (if compressed m0 then decompress_data l sd else Some sd) = Some d \<and>
           calculate_hash l d = hash m0 \<and>
           m = m0\<lparr>last_accessed := now_first e, access_count := access_count m0 + 1\<rparr> \<and>
           st' = fst (save_metadata e (st\<lparr>metadata := (metadata st)\<lparr>resources :=
                   AList.update rid m (resources (metadata st))\<rparr>\<rparr>)) \<and>
           lg = snd (save_metadata e (st\<lparr>metadata := (metadata st)\<lparr>resources :=
                   AList.update rid m (resources (metadata st))\<rparr>\<rparr>)) @ [Retrieved_resource rid]"
  using assms
  by (auto simp: get_resource_def Let_def split_beta split: option.splits if_splits)

lemma get_resource_mismatch:
  assumes "map_of (resources (metadata st)) rid = Some m0"
    and "files st (resolve st (file_path st rid)) = Some sd"
    and "(if compressed m0 then decompress_data l sd else Some sd) = Some d"
    and "calculate_hash l d \<noteq> hash m0"
  shows "fst (get_resource l e st rid) = None"
    and "\<not> payload_read_fails e \<Longrightarrow> get_resource l e st rid = (None, st, [Hash_mismatch rid])"
  using assms by (auto simp: get_resource_def split: if_splits)

lemma get_resource_keys:
  "map fst (resources (metadata (fst (snd (get_resource l e st rid)))))
     = map fst (resources (metadata st)) \<and>
   versions (metadata (fst (snd (get_resource l e st rid)))) = versions (metadata st)"
proof (cases "fst (get_resource l e st rid)")
  case None
  then have "fst (snd (get_resource l e st rid)) = st"
    by (auto simp: get_resource_def Let_def split_beta split: option.splits if_splits)
  then show ?thesis by simp
next
  case (Some dm)
  then have "get_resource l e st rid
      = (Some (fst dm, snd dm), fst (snd (get_resource l e st rid)),
         snd (snd (get_resource l e st rid)))"
    by (simp add: prod_eq_iff)
  from get_resource_served [OF this] obtain m0 where
    m0: "map_of (resources (metadata st)) rid = Some m0"
    and st': "fst (snd (get_resource l e st rid))
        = fst (save_metadata e (st\<lparr>metadata := (metadata st)\<lparr>resources :=
                   AList.update rid (snd dm) (resources (metadata st))\<rparr>\<rparr>))"
    by blast
  have "rid \<in> fst ` set (resources (metadata st))"
    using m0 by (force dest: map_of_SomeD)
  then show ?thesis
    by (simp add: st' save_metadata_metadata AList.update_keys)
qed

subsection \<open>The outcomes of \<open>delete_resource\<close>\<close>

lemma delete_resource_unknown:
  "rid \<notin> set (map fst (resources (metadata st))) \<Longrightarrow>
     delete_resource e st rid = (False, st, [])"
  by (simp add: delete_resource_def)

lemma delete_resource_result:
  "fst (delete_resource e st rid)
     = (rid \<in> set (map fst (resources (metadata st))) \<and>
        \<not> (files st (resolve st (file_path st rid)) \<noteq> None \<and> payload_remove_fails e))"
  by (simp add: delete_resource_def Let_def split_beta del: set_map)

lemma delete_resource_file:
  "fst (delete_resource e st rid) \<Longrightarrow>
     files (fst (snd (delete_resource e st rid))) (resolve st (file_path st rid)) = None"
  by (auto simp add: delete_resource_def Let_def split_beta save_metadata_files
      split: if_splits simp del: set_map)

lemma delete_resource_keys:
  "set (map fst (resources (metadata (fst (snd (delete_resource e st rid))))))
     = (if fst (delete_resource e st rid) then set (map fst (resources (metadata st))) - {rid}
        else set (map fst (resources (metadata st)))) \<and>
   set (map fst (versions (metadata (fst (snd (delete_resource e st rid))))))
     = (if fst (delete_resource e st rid) then set (map fst (versions (metadata st))) - {rid}
        else set (map fst (versions (metadata st))))"
  by (simp add: delete_resource_def Let_def split_beta save_metadata_metadata keys_delete
      del: set_map)

subsection \<open>Sorting and summing\<close>

lemma mset_sorted_reverse: "mset (sorted_reverse k xs) = mset xs"
  by (simp add: sorted_reverse_def)

lemma descending_sorted_reverse:
  "sorted_wrt (\<lambda>x y. k y \<le> k x) (sorted_reverse k xs)"
proof -
  have "sorted (map k (sort_key k (rev xs)))"
    by (rule sorted_sort_key)
  then have "sorted_wrt (\<lambda>x y. k x \<le> k y) (sort_key k (rev xs))"
    by (simp add: sorted_map)
  then show ?thesis
    by (simp add: sorted_reverse_def sorted_wrt_rev)
qed

text \<open>Three entries with three different keys have one descending arrangement.\<close>

lemma three_descending:
  fixes T1 :: "'t::linorder"
  assumes "mset P = {#(a, T1), (b, T2), (c, T3)#}"
    and "sorted_wrt (\<lambda>x y. snd y \<le> snd x) P"
    and "T1 < T2" and "T2 < T3"
  shows "P = [(c, T3), (b, T2), (a, T1)]"
proof -
  have "length P = 3"
    using assms(1) by (metis size_mset size_add_mset size_empty numeral_3_eq_3)
  then obtain x y z where P: "P = [x, y, z]"
    by (auto simp: numeral_3_eq_3 length_Suc_conv)
  have ord: "snd z \<le> snd y" "snd y \<le> snd x"
    using assms(2) by (simp_all add: P)
  have "set P = {(a, T1), (b, T2), (c, T3)}"
    using assms(1) by (metis set_mset_mset set_mset_add_mset_insert set_mset_empty)
  then have mem: "x \<in> {(a, T1), (b, T2), (c, T3)}" "y \<in> {(a, T1), (b, T2), (c, T3)}"
    "z \<in> {(a, T1), (b, T2), (c, T3)}"
    "(a, T1) \<in> {x, y, z}" "(b, T2) \<in> {x, y, z}" "(c, T3) \<in> {x, y, z}"
    by (auto simp: P)
  show ?thesis
    using ord mem assms(3,4) unfolding P by auto
qed

lemma totals_sum:
  "totals metas (tsize, tcompressed)
     = (tsize + sum_list (map size_m metas), tcompressed + sum_list (map compressed_size metas))"
  by (induction metas arbitrary: tsize tcompressed) simp_all

subsection \<open>The invariant, operation by operation\<close>

lemma in_sync_store:
  assumes "in_sync (metadata st)"
  shows "in_sync (metadata (fst (snd (store_resource l e st rid data ty pr c))))"
proof (cases "payload_write e = Write_ok")
  case True
  then show ?thesis
    using assms store_resource_keys [OF True, of l st rid data ty pr c]
    unfolding in_sync_def by simp
next
  case False
  then show ?thesis
    using assms by (simp add: store_resource_failed_metadata)
qed

lemma in_sync_get:
  assumes "in_sync (metadata st)"
  shows "in_sync (metadata (fst (snd (get_resource l e st rid))))"
  using assms get_resource_keys [of l e st rid] unfolding in_sync_def by simp

lemma in_sync_delete:
  assumes "in_sync (metadata st)"
  shows "in_sync (metadata (fst (snd (delete_resource e st rid))))"
  using assms delete_resource_keys [of e st rid] unfolding in_sync_def
  by (simp del: set_map)

lemma in_sync_perform:
  "in_sync (metadata st) \<Longrightarrow> in_sync (metadata (snd (perform l e st opn)))"
  by (cases opn) (simp_all add: split_beta in_sync_store in_sync_get in_sync_delete)

lemma in_sync_run:
  "in_sync (metadata st) \<Longrightarrow> in_sync (metadata (run l st steps))"
  by (induction steps arbitrary: st) (auto simp: in_sync_perform)

lemma in_sync_init:
  "f = Absent \<or> f = Unparseable \<Longrightarrow> in_sync (metadata (fst (init e dir rs fs f)))"
  by (auto simp: init_def load_metadata_def empty_metadata_def in_sync_def)

subsection \<open>The concrete instances, evaluated\<close>

lemma example_resolve_a:
  "example_resolve ''resources/a.bin'' = ''resources/a.bin''"
  "example_resolve ''resources/./a.bin'' = ''resources/a.bin''"
  by (simp_all add: example_resolve_def)

lemmas example_defs = example_lib_def example_env_def example_state_def hello_world_def
  hello_again_def failing_env_def remove_failing_env_def init_def load_metadata_def
  empty_metadata_def example_resolve_a

lemmas model_defs = store_resource_def get_resource_def delete_resource_def save_metadata_def
  file_path_def os_path_join_def dict_get_def calculate_hash_def compress_data_def
  decompress_data_def check_version_def Let_def


lemma stored_state_eq:
  "stored_state =
     \<lparr>resources_dir = ''resources'',
      resolve = example_resolve,
      metadata =
        \<lparr>resources = [(''a'', \<lparr>type_m = ''text'', size_m = 11, compressed_size = 13,
                               hash = ''01001011000'', compressed = True, priority = 1,
                               created = ''2024-01-01T10:00:00'',
                               last_accessed = ''2024-01-01T10:00:00.000012'',
                               access_count = 0\<rparr>)],
         versions = [(''a'', 1)]\<rparr>,
      files = [''resources/a.bin'' \<mapsto> 31 # 139 # hello_world],
      metadata_file = Parsed
        \<lparr>resources = [(''a'', \<lparr>type_m = ''text'', size_m = 11, compressed_size = 13,
                               hash = ''01001011000'', compressed = True, priority = 1,
                               created = ''2024-01-01T10:00:00'',
                               last_accessed = ''2024-01-01T10:00:00.000012'',
                               access_count = 0\<rparr>)],
         versions = [(''a'', 1)]\<rparr>\<rparr>"
  by (simp add: stored_state_def example_defs model_defs)

lemma first_store_eq:
  "store_resource example_lib example_env example_state ''a'' hello_world ''text'' 1 True
     = (Store_success ''a'' 11 13 1 ''01001011000'', stored_state,
        [Stored_resource ''a'' 11])"
  unfolding stored_state_eq by (simp add: example_defs model_defs)

section \<open>The claims\<close>

subsection \<open>Store and get\<close>

text \<open>
  Claim C1. For every identifier and every payload \<open>p\<close>, the empty one included,
  when \<open>store_resource\<close> has succeeded, the \<open>get_resource\<close> that follows returns
  bytes equal to \<open>p\<close> and a record whose stored hash is the hash of \<open>p\<close>, with
  and without compression. The library is asked to give \<open>p\<close> back when it
  decompresses what it compressed from \<open>p\<close>, and the file system to let the payload
  file be read.
\<close>

theorem store_get_round_trip:
  assumes "store_resource l e st rid p ty pr c = (r, st', lg)" and "is_success r"
    and "c \<longrightarrow> decompress_data l (compress_data l p) = Some p"
    and "\<not> payload_read_fails e'"
  shows "\<exists>m st'' lg'. get_resource l e' st' rid = (Some (p, m), st'', lg') \<and>
           hash m = calculate_hash l p \<and> hash_of r = Some (calculate_hash l p)"
proof -
  from assms have w: "payload_write e = Write_ok"
    using store_success_iff [of l e st rid p ty pr c] by simp
  show ?thesis
    using assms unfolding store_success_state [OF w]
    by (auto simp: Let_def get_resource_def save_metadata_metadata save_metadata_files
        file_path_save AList.update_conv' split_beta)
qed

theorem store_get_round_trip_witness:
  "is_success (fst (store_resource example_lib example_env example_state
                      ''a'' hello_world ''text'' 1 True)) \<and>
   decompress_data example_lib (compress_data example_lib hello_world) = Some hello_world \<and>
   \<not> payload_read_fails example_env \<and>
   map_option fst (fst (get_resource example_lib example_env stored_state ''a''))
     = Some hello_world \<and>
   map_option (hash \<circ> snd) (fst (get_resource example_lib example_env stored_state ''a''))
     = Some (calculate_hash example_lib hello_world)"
proof -
  have s: "is_success (Store_success ''a'' 11 13 1 ''01001011000'')"
    by simp
  have c: "True \<longrightarrow> decompress_data example_lib (compress_data example_lib hello_world)
      = Some hello_world"
    by (simp add: example_defs model_defs)
  have r: "\<not> payload_read_fails example_env"
    by (simp add: example_defs)
  from store_get_round_trip [OF first_store_eq s c r] obtain m st'' lg' where
    "get_resource example_lib example_env stored_state ''a'' = (Some (hello_world, m), st'', lg')"
    "hash m = calculate_hash example_lib hello_world"
    by blast
  then show ?thesis
    using c r by (simp add: first_store_eq)
qed

subsection \<open>Versions\<close>

text \<open>
  Claim C2. The first successful store for an identifier without a version
  counter yields version 1; a successful store for an identifier whose counter
  is \<open>v\<close> yields \<open>v + 1\<close>; and \<open>check_version\<close> returns the version the latest
  successful store produced.
\<close>

theorem store_versioning:
  assumes "store_resource l e st rid data ty pr c = (r, st', lg)" and "is_success r"
  shows "(check_version st rid = None \<longrightarrow> version_of r = Some 1) \<and>
         (\<forall>v. check_version st rid = Some v \<longrightarrow> version_of r = Some (v + 1)) \<and>
         check_version st' rid = version_of r"
proof -
  from assms have w: "payload_write e = Write_ok"
    using store_success_iff [of l e st rid data ty pr c] by simp
  show ?thesis
    using assms(1) unfolding store_success_state [OF w]
    by (auto simp: Let_def check_version_def dict_get_def save_metadata_metadata
        AList.update_conv')
qed

theorem store_versioning_witness:
  "is_success (fst (store_resource example_lib example_env example_state
                      ''a'' hello_world ''text'' 1 True)) \<and>
   check_version example_state ''a'' = None \<and>
   version_of (fst (store_resource example_lib example_env example_state
                      ''a'' hello_world ''text'' 1 True)) = Some 1 \<and>
   check_version stored_state ''a'' = Some 1 \<and>
   is_success (fst (store_resource example_lib example_env stored_state
                      ''a'' hello_again ''text'' 1 True)) \<and>
   version_of (fst (store_resource example_lib example_env stored_state
                      ''a'' hello_again ''text'' 1 True)) = Some 2 \<and>
   check_version (fst (snd (store_resource example_lib example_env stored_state
                      ''a'' hello_again ''text'' 1 True))) ''a'' = Some 2"
proof -
  have s1: "is_success (Store_success ''a'' 11 13 1 ''01001011000'')"
    by simp
  have fresh: "check_version example_state ''a'' = None"
    by (simp add: example_defs model_defs)
  have v1: "version_of (Store_success ''a'' 11 13 1 ''01001011000'') = Some 1
      \<and> check_version stored_state ''a'' = Some 1"
    using store_versioning [OF first_store_eq s1] fresh by simp
  let ?second = "store_resource example_lib example_env stored_state
      ''a'' hello_again ''text'' 1 True"
  have s2: "is_success (fst ?second)"
    by (simp add: store_success_iff example_defs)
  have "?second = (fst ?second, fst (snd ?second), snd (snd ?second))"
    by simp
  from store_versioning [OF this s2] v1
  have v2: "version_of (fst ?second) = Some 2
      \<and> check_version (fst (snd ?second)) ''a'' = Some 2"
    by simp
  show ?thesis
    using s2 fresh v1 v2 by (simp add: first_store_eq)
qed

subsection \<open>Integrity\<close>

text \<open>
  Claim C3. After a successful store of \<open>p\<close> under an identifier, let the bytes
  of its payload file be replaced from outside by \<open>b\<close>, such that the bytes
  recovered from \<open>b\<close> no longer hash to the stored hash. Then \<open>get_resource\<close>
  returns no data. When the file can be read, the call logs the hash mismatch as
  an error, returns \<open>None\<close> and changes nothing.
\<close>

theorem corrupted_payload_detected:
  assumes "store_resource l e st rid p ty pr c = (r, st', lg)" and "is_success r"
    and "st'' = st'\<lparr>files := (files st')(resolve st' (file_path st' rid) \<mapsto> b)\<rparr>"
    and "(if c then decompress_data l b else Some b) = Some d"
    and "calculate_hash l d \<noteq> calculate_hash l p"
  shows "fst (get_resource l e' st'' rid) = None \<and>
         (\<not> payload_read_fails e' \<longrightarrow>
            get_resource l e' st'' rid = (None, st'', [Hash_mismatch rid]))"
proof -
  from assms have w: "payload_write e = Write_ok"
    using store_success_iff [of l e st rid p ty pr c] by simp
  define m0 where "m0 = \<lparr>type_m = ty, size_m = length p,
      compressed_size = length (if c then compress_data l p else p),
      hash = calculate_hash l p, compressed = c, priority = pr, created = now_first e,
      last_accessed = now_second e, access_count = 0\<rparr>"
  have md: "map_of (resources (metadata st'')) rid = Some m0"
    using assms(1,3) unfolding store_success_state [OF w]
    by (auto simp: Let_def save_metadata_metadata AList.update_conv' m0_def)
  have fl: "files st'' (resolve st'' (file_path st'' rid)) = Some b"
    using assms(3) by simp
  have rc: "(if compressed m0 then decompress_data l b else Some b) = Some d"
    using assms(4) by (simp add: m0_def)
  have hs: "calculate_hash l d \<noteq> hash m0"
    using assms(5) by (simp add: m0_def)
  show ?thesis
    using get_resource_mismatch [OF md fl rc hs] by blast
qed

theorem corrupted_payload_detected_witness:
  "is_success (fst (store_resource example_lib example_env example_state
                      ''a'' hello_world ''text'' 1 True)) \<and>
   decompress_data example_lib (31 # 139 # hello_again) = Some hello_again \<and>
   calculate_hash example_lib hello_again \<noteq> calculate_hash example_lib hello_world \<and>
   \<not> payload_read_fails example_env \<and>
   get_resource example_lib example_env
     (stored_state\<lparr>files := (files stored_state)
        (resolve stored_state (file_path stored_state ''a'') \<mapsto> 31 # 139 # hello_again)\<rparr>) ''a''
     = (None,
        stored_state\<lparr>files := (files stored_state)
          (resolve stored_state (file_path stored_state ''a'') \<mapsto> 31 # 139 # hello_again)\<rparr>,
        [Hash_mismatch ''a''])"
proof -
  have s: "is_success (Store_success ''a'' 11 13 1 ''01001011000'')"
    by simp
  have d: "(if True then decompress_data example_lib (31 # 139 # hello_again)
            else Some (31 # 139 # hello_again)) = Some hello_again"
    by (simp add: example_defs model_defs)
  have h: "calculate_hash example_lib hello_again \<noteq> calculate_hash example_lib hello_world"
    by (simp add: example_defs model_defs)
  have r: "\<not> payload_read_fails example_env"
    by (simp add: example_defs)
  show ?thesis
    using corrupted_payload_detected [OF first_store_eq s refl d h, of example_env] d h r
    by (simp add: first_store_eq)
qed


subsection \<open>A failed write\<close>

text \<open>
  Claim C5, as the code has it. When writing the payload file fails, and only
  then, \<open>store_resource\<close> returns the error descriptor instead of raising. The
  record and the version counter of the identifier, all other metadata and the
  metadata file are as before, and so is every file other than the one that the
  payload path of the identifier names. When it is \<^verbatim>\<open>open\<close> that fails, the whole
  state is as before. (When \<^verbatim>\<open>write\<close> fails on the opened file, that one file
  holds what was written until then, under whichever identifier it was stored.)
\<close>

theorem store_failure_keeps_metadata:
  assumes "store_resource l e st rid data ty pr c = (r, st', lg)"
    and "payload_write e \<noteq> Write_ok \<or> \<not> is_success r"
  shows "r = Store_error \<and> payload_write e \<noteq> Write_ok \<and>
         metadata st' = metadata st \<and>
         metadata_file st' = metadata_file st \<and>
         resources_dir st' = resources_dir st \<and> resolve st' = resolve st \<and>
         (\<forall>f. f \<noteq> resolve st (file_path st rid) \<longrightarrow> files st' f = files st f) \<and>
         (payload_write e = Open_fails \<longrightarrow> st' = st)"
proof -
  have w: "payload_write e \<noteq> Write_ok"
    using assms store_success_iff [of l e st rid data ty pr c] by auto
  then show ?thesis
    using assms(1)
    by (cases "payload_write e") (auto simp: store_resource_def Let_def)
qed

theorem store_failure_keeps_metadata_witness:
  "payload_write failing_env \<noteq> Write_ok \<and>
   fst (store_resource example_lib failing_env stored_state
          ''a'' hello_again ''text'' 1 True) = Store_error \<and>
   metadata (fst (snd (store_resource example_lib failing_env stored_state
          ''a'' hello_again ''text'' 1 True))) = metadata stored_state \<and>
   check_version (fst (snd (store_resource example_lib failing_env stored_state
          ''a'' hello_again ''text'' 1 True))) ''a'' = Some 1"
proof -
  let ?failed = "store_resource example_lib failing_env stored_state
      ''a'' hello_again ''text'' 1 True"
  have w: "payload_write failing_env \<noteq> Write_ok \<or> \<not> is_success (fst ?failed)"
    by (simp add: example_defs)
  have "?failed = (fst ?failed, fst (snd ?failed), snd (snd ?failed))"
    by simp
  from store_failure_keeps_metadata [OF this w]
  have "fst ?failed = Store_error \<and> payload_write failing_env \<noteq> Write_ok \<and>
      metadata (fst (snd ?failed)) = metadata stored_state"
    by blast
  then show ?thesis
    by (simp add: check_version_def stored_state_eq)
qed

text \<open>
  Claim C5 as it is written also calls a failed store a no-op on the state. With
  \<open>hello world\<close> stored under \<open>a\<close>, a second store whose \<^verbatim>\<open>write\<close> raises returns
  the error descriptor and leaves the payload file empty: the state has changed,
  and \<open>get_resource\<close>, which returned the data before, returns \<open>None\<close> after.
\<close>

theorem store_failure_noop_counterexample:
  "fst (store_resource example_lib failing_env stored_state
          ''a'' hello_again ''text'' 1 True) = Store_error \<and>
   fst (snd (store_resource example_lib failing_env stored_state
          ''a'' hello_again ''text'' 1 True)) \<noteq> stored_state \<and>
   files stored_state ''resources/a.bin'' = Some (31 # 139 # hello_world) \<and>
   files (fst (snd (store_resource example_lib failing_env stored_state
          ''a'' hello_again ''text'' 1 True))) ''resources/a.bin'' = Some [] \<and>
   map_option fst (fst (get_resource example_lib example_env stored_state ''a''))
     = Some hello_world \<and>
   fst (get_resource example_lib example_env
          (fst (snd (store_resource example_lib failing_env stored_state
             ''a'' hello_again ''text'' 1 True))) ''a'') = None"
proof -
  let ?failed = "store_resource example_lib failing_env stored_state
      ''a'' hello_again ''text'' 1 True"
  have f: "?failed = (Store_error, stored_state\<lparr>files := [''resources/a.bin'' \<mapsto> []]\<rparr>,
      [Error_storing_resource ''a''])"
    unfolding stored_state_eq by (simp add: example_defs model_defs)
  have before: "files stored_state ''resources/a.bin'' = Some (31 # 139 # hello_world)"
    unfolding stored_state_eq by simp
  have after: "files (fst (snd ?failed)) ''resources/a.bin'' = Some []"
    by (simp add: f)
  have "files (fst (snd ?failed)) \<noteq> files stored_state"
    using before after by (metis list.distinct(1) option.inject)
  then have changed: "fst (snd ?failed) \<noteq> stored_state"
    by auto
  have g1: "map_option fst (fst (get_resource example_lib example_env stored_state ''a''))
      = Some hello_world"
    unfolding stored_state_eq by (simp add: example_defs model_defs)
  have g2: "fst (get_resource example_lib example_env (fst (snd ?failed)) ''a'') = None"
    unfolding f stored_state_eq by (simp add: example_defs model_defs)
  show ?thesis
    using f before after changed g1 g2 by simp
qed

text \<open>
  The same failure under the identifier \<^verbatim>\<open>./a\<close>, whose payload path names the file
  of \<open>a\<close>: that file is the one left empty.
\<close>

lemma store_failure_alias_example:
  "file_path stored_state ''./a'' = ''resources/./a.bin'' \<and>
   file_path stored_state ''a'' = ''resources/a.bin'' \<and>
   files stored_state ''resources/a.bin'' = Some (31 # 139 # hello_world) \<and>
   fst (store_resource example_lib failing_env stored_state
          ''./a'' hello_again ''text'' 1 True) = Store_error \<and>
   files (fst (snd (store_resource example_lib failing_env stored_state
          ''./a'' hello_again ''text'' 1 True))) ''resources/a.bin'' = Some []"
  unfolding stored_state_eq by (simp add: example_defs model_defs)

subsection \<open>Listing\<close>

lemma list_resources_types:
  "s \<in> set (list_resources st resource_type) \<Longrightarrow>
     resource_type = None \<or> resource_type = Some (s_type s)"
  by (cases resource_type)
     (auto simp: list_resources_def sorted_reverse_def summarize_def matches_def)

text \<open>
  Claim C6. For every type filter, absent or given, \<open>list_resources\<close> returns
  one summary for each resource whose type is the one asked for (for each
  resource when no type is asked for), and no other: identifier, type, size,
  compressed size, priority, last access and access count are those of the
  record, the version is the counter of the identifier (1 when it has none). The
  list is in descending order of \<open>last_accessed\<close>. In particular, when the
  resources that pass the filter are \<open>a\<close>, \<open>b\<close> and \<open>c\<close>, last accessed at
  \<open>T1 < T2 < T3\<close>, the list is \<open>c\<close>, \<open>b\<close>, \<open>a\<close>, whatever the order of the
  dictionary.
\<close>

theorem list_resources_descending:
  "mset (list_resources st resource_type)
     = mset (map (\<lambda>(resource_id, meta).
                    \<lparr>s_id = resource_id,
                     s_type = type_m meta,
                     s_size = size_m meta,
                     s_compressed_size = compressed_size meta,
                     s_priority = priority meta,
                     s_version = (case map_of (versions (metadata st)) resource_id of
                                    None \<Rightarrow> 1 | Some v \<Rightarrow> v),
                     s_last_accessed = last_accessed meta,
                     s_access_count = access_count meta\<rparr>)
         (filter (\<lambda>(resource_id, meta).
                    resource_type = None \<or> resource_type = Some (type_m meta))
            (resources (metadata st)))) \<and>
   (\<forall>s \<in> set (list_resources st resource_type).
      resource_type = None \<or> resource_type = Some (s_type s)) \<and>
   sorted_wrt (\<lambda>x y. s_last_accessed y \<le> s_last_accessed x) (list_resources st resource_type) \<and>
   (mset (map (\<lambda>(resource_id, meta). (resource_id, last_accessed meta))
        (filter (\<lambda>(resource_id, meta).
                   resource_type = None \<or> resource_type = Some (type_m meta))
           (resources (metadata st))))
       = {#(a, T1), (b, T2), (c, T3)#} \<and> T1 < T2 \<and> T2 < T3 \<longrightarrow>
    map (\<lambda>s. (s_id s, s_last_accessed s)) (list_resources st resource_type)
      = [(c, T3), (b, T2), (a, T1)])"
proof (intro conjI impI ballI)
  have flt: "(\<lambda>(resource_id, meta). matches resource_type meta)
      = (\<lambda>(resource_id, meta). resource_type = None \<or> resource_type = Some (type_m meta))"
    by (auto simp: matches_def fun_eq_iff split: option.splits)
  have smz: "summarize st = (\<lambda>(resource_id, meta).
                    \<lparr>s_id = resource_id,
                     s_type = type_m meta,
                     s_size = size_m meta,
                     s_compressed_size = compressed_size meta,
                     s_priority = priority meta,
                     s_version = (case map_of (versions (metadata st)) resource_id of
                                    None \<Rightarrow> 1 | Some v \<Rightarrow> v),
                     s_last_accessed = last_accessed meta,
                     s_access_count = access_count meta\<rparr>)"
    by (simp add: summarize_def dict_get_def)
  show perm: "mset (list_resources st resource_type)
     = mset (map (\<lambda>(resource_id, meta).
                    \<lparr>s_id = resource_id,
                     s_type = type_m meta,
                     s_size = size_m meta,
                     s_compressed_size = compressed_size meta,
                     s_priority = priority meta,
                     s_version = (case map_of (versions (metadata st)) resource_id of
                                    None \<Rightarrow> 1 | Some v \<Rightarrow> v),
                     s_last_accessed = last_accessed meta,
                     s_access_count = access_count meta\<rparr>)
         (filter (\<lambda>(resource_id, meta).
                    resource_type = None \<or> resource_type = Some (type_m meta))
            (resources (metadata st))))"
    unfolding list_resources_def mset_sorted_reverse flt smz ..
  show desc: "sorted_wrt (\<lambda>x y. s_last_accessed y \<le> s_last_accessed x)
      (list_resources st resource_type)"
    by (simp add: list_resources_def descending_sorted_reverse)
  {
    fix s
    assume "s \<in> set (list_resources st resource_type)"
    then show "resource_type = None \<or> resource_type = Some (s_type s)"
      by (rule list_resources_types)
  }
  {
    assume h: "mset (map (\<lambda>(resource_id, meta). (resource_id, last_accessed meta))
        (filter (\<lambda>(resource_id, meta).
                   resource_type = None \<or> resource_type = Some (type_m meta))
           (resources (metadata st))))
       = {#(a, T1), (b, T2), (c, T3)#} \<and> T1 < T2 \<and> T2 < T3"
    let ?P = "map (\<lambda>s. (s_id s, s_last_accessed s)) (list_resources st resource_type)"
    let ?F = "filter (\<lambda>(resource_id, meta).
                   resource_type = None \<or> resource_type = Some (type_m meta))
           (resources (metadata st))"
    have "mset ?P
        = image_mset (\<lambda>s. (s_id s, s_last_accessed s)) (mset (list_resources st resource_type))"
      by simp
    also have "\<dots> = mset (map (\<lambda>s. (s_id s, s_last_accessed s)) (map (summarize st) ?F))"
      unfolding perm smz by (simp add: multiset.map_comp)
    also have "map (\<lambda>s. (s_id s, s_last_accessed s)) (map (summarize st) ?F)
        = map (\<lambda>(resource_id, meta). (resource_id, last_accessed meta)) ?F"
      by (simp add: summarize_def split_beta)
    finally have m: "mset ?P = {#(a, T1), (b, T2), (c, T3)#}"
      using h by simp
    have s: "sorted_wrt (\<lambda>x y. snd y \<le> snd x) ?P"
      using desc by (simp add: sorted_wrt_map)
    show "?P = [(c, T3), (b, T2), (a, T1)]"
      using three_descending [OF m s] h by blast
  }
qed

theorem list_resources_descending_witness:
  "(''2024-01-01T10:01:00'' :: string) < ''2024-01-01T10:02:00.000500'' \<and>
   (''2024-01-01T10:02:00.000500'' :: string) < ''2024-01-01T10:03:00'' \<and>
   map (\<lambda>(resource_id, meta). (resource_id, type_m meta)) (resources (metadata listing_state))
     = [(''x'', ''text''), (''y'', ''binary''), (''z'', ''text'')] \<and>
   map (\<lambda>s. (s_id s, s_last_accessed s)) (list_resources listing_state None)
     = [(''y'', ''2024-01-01T10:03:00''),
        (''z'', ''2024-01-01T10:02:00.000500''),
        (''x'', ''2024-01-01T10:01:00'')] \<and>
   map (\<lambda>s. (s_id s, s_type s, s_version s)) (list_resources listing_state (Some ''text''))
     = [(''z'', ''text'', 2), (''x'', ''text'', 1)]"
proof -
  have t: "(''2024-01-01T10:01:00'' :: string) < ''2024-01-01T10:02:00.000500''"
    "(''2024-01-01T10:02:00.000500'' :: string) < ''2024-01-01T10:03:00''"
    by simp_all
  have r: "map (\<lambda>(resource_id, meta). (resource_id, type_m meta))
        (resources (metadata listing_state))
      = [(''x'', ''text''), (''y'', ''binary''), (''z'', ''text'')]"
    by (simp add: listing_state_def listing_meta_def)
  have m: "mset (map (\<lambda>(resource_id, meta). (resource_id, last_accessed meta))
        (filter (\<lambda>(resource_id, meta). None = None \<or> None = Some (type_m meta))
           (resources (metadata listing_state))))
      = {#(''x'', ''2024-01-01T10:01:00''), (''z'', ''2024-01-01T10:02:00.000500''),
          (''y'', ''2024-01-01T10:03:00'')#}"
    by (simp add: listing_state_def listing_meta_def)
  have all: "map (\<lambda>s. (s_id s, s_last_accessed s)) (list_resources listing_state None)
     = [(''y'', ''2024-01-01T10:03:00''),
        (''z'', ''2024-01-01T10:02:00.000500''),
        (''x'', ''2024-01-01T10:01:00'')]"
    using list_resources_descending [of listing_state None "''x''" "''2024-01-01T10:01:00''"
        "''z''" "''2024-01-01T10:02:00.000500''" "''y''" "''2024-01-01T10:03:00''"] t m
    by blast
  have tx: "map (\<lambda>s. (s_id s, s_type s, s_version s))
        (list_resources listing_state (Some ''text''))
      = [(''z'', ''text'', 2), (''x'', ''text'', 1)]"
    by (simp add: list_resources_def sorted_reverse_def summarize_def matches_def dict_get_def
        listing_state_def listing_meta_def)
  show ?thesis
    using t r all tx by blast
qed

subsection \<open>Deleting\<close>

text \<open>
  Claim C7, as the code has it. Deleting an unknown identifier returns \<open>False\<close>
  and changes no state. For a known identifier \<open>delete_resource\<close> returns \<open>True\<close>,
  unless the payload file exists and \<^verbatim>\<open>os.remove\<close> raises: then it logs the error,
  returns \<open>False\<close> and changes no state. After a delete that returned \<open>True\<close> the
  identifier has neither record nor version counter nor payload file, and a
  second delete returns \<open>False\<close>, again without changing the state.
\<close>

theorem delete_outcome:
  "(resource_id \<notin> set (map fst (resources (metadata st))) \<longrightarrow>
      delete_resource e st resource_id = (False, st, [])) \<and>
   (resource_id \<in> set (map fst (resources (metadata st))) \<and>
    files st (resolve st (file_path st resource_id)) \<noteq> None \<and> payload_remove_fails e \<longrightarrow>
      delete_resource e st resource_id = (False, st, [Error_deleting_resource resource_id])) \<and>
   fst (delete_resource e st resource_id)
     = (resource_id \<in> set (map fst (resources (metadata st))) \<and>
        \<not> (files st (resolve st (file_path st resource_id)) \<noteq> None \<and> payload_remove_fails e)) \<and>
   (fst (delete_resource e st resource_id) \<longrightarrow>
      resource_id \<notin> set (map fst
        (resources (metadata (fst (snd (delete_resource e st resource_id)))))) \<and>
      resource_id \<notin> set (map fst
        (versions (metadata (fst (snd (delete_resource e st resource_id)))))) \<and>
      files (fst (snd (delete_resource e st resource_id)))
        (resolve st (file_path st resource_id)) = None \<and>
      delete_resource e2 (fst (snd (delete_resource e st resource_id))) resource_id
        = (False, fst (snd (delete_resource e st resource_id)), []))"
proof (intro conjI impI)
  assume "resource_id \<notin> set (map fst (resources (metadata st)))"
  then show "delete_resource e st resource_id = (False, st, [])"
    by (rule delete_resource_unknown)
next
  assume "resource_id \<in> set (map fst (resources (metadata st))) \<and>
    files st (resolve st (file_path st resource_id)) \<noteq> None \<and> payload_remove_fails e"
  then show "delete_resource e st resource_id = (False, st, [Error_deleting_resource resource_id])"
    by (simp add: delete_resource_def Let_def del: set_map)
next
  show "fst (delete_resource e st resource_id)
     = (resource_id \<in> set (map fst (resources (metadata st))) \<and>
        \<not> (files st (resolve st (file_path st resource_id)) \<noteq> None \<and> payload_remove_fails e))"
    by (rule delete_resource_result)
next
  assume d: "fst (delete_resource e st resource_id)"
  show gone: "resource_id \<notin> set (map fst
      (resources (metadata (fst (snd (delete_resource e st resource_id))))))"
    using d delete_resource_keys [of e st resource_id] by (simp del: set_map)
  show "resource_id \<notin> set (map fst
      (versions (metadata (fst (snd (delete_resource e st resource_id))))))"
    using d delete_resource_keys [of e st resource_id] by (simp del: set_map)
  show "files (fst (snd (delete_resource e st resource_id)))
      (resolve st (file_path st resource_id)) = None"
    using d by (rule delete_resource_file)
  show "delete_resource e2 (fst (snd (delete_resource e st resource_id))) resource_id
        = (False, fst (snd (delete_resource e st resource_id)), [])"
    using gone by (rule delete_resource_unknown)
qed

theorem delete_outcome_witness:
  "''a'' \<notin> set (map fst (resources (metadata example_state))) \<and>
   delete_resource example_env example_state ''a'' = (False, example_state, []) \<and>
   \<not> payload_remove_fails example_env \<and>
   ''a'' \<in> set (map fst (resources (metadata stored_state))) \<and>
   fst (delete_resource example_env stored_state ''a'') \<and>
   check_version (fst (snd (delete_resource example_env stored_state ''a''))) ''a'' = None \<and>
   delete_resource example_env (fst (snd (delete_resource example_env stored_state ''a''))) ''a''
     = (False, fst (snd (delete_resource example_env stored_state ''a'')), []) \<and>
   files stored_state (resolve stored_state (file_path stored_state ''a'')) \<noteq> None \<and>
   payload_remove_fails remove_failing_env \<and>
   delete_resource remove_failing_env stored_state ''a''
     = (False, stored_state, [Error_deleting_resource ''a''])"
proof -
  let ?deleted = "delete_resource example_env stored_state ''a''"
  have x: "files stored_state (resolve stored_state (file_path stored_state ''a'')) \<noteq> None"
    "payload_remove_fails remove_failing_env"
    unfolding stored_state_eq by (simp_all add: example_defs model_defs)
  have u: "''a'' \<notin> set (map fst (resources (metadata example_state)))"
    by (simp add: example_defs)
  have k: "''a'' \<in> set (map fst (resources (metadata stored_state)))"
    unfolding stored_state_eq by simp
  have r: "\<not> (files stored_state (resolve stored_state (file_path stored_state ''a'')) \<noteq> None
      \<and> payload_remove_fails example_env)"
    "\<not> payload_remove_fails example_env"
    by (simp_all add: example_defs)
  have first: "delete_resource example_env example_state ''a'' = (False, example_state, [])"
    using delete_outcome [of "''a''" example_state example_env example_env] u
    by blast
  have t: "fst ?deleted"
    using delete_outcome [of "''a''" stored_state example_env example_env] r(1) k
    by blast
  have gone: "''a'' \<notin> set (map fst (versions (metadata (fst (snd ?deleted)))))"
    and again: "delete_resource example_env (fst (snd ?deleted)) ''a''
      = (False, fst (snd ?deleted), [])"
    using delete_outcome [of "''a''" stored_state example_env example_env] t
    by blast+
  have v: "check_version (fst (snd ?deleted)) ''a'' = None"
    using gone unfolding check_version_def by (simp add: map_of_eq_None_iff)
  have failed: "delete_resource remove_failing_env stored_state ''a''
      = (False, stored_state, [Error_deleting_resource ''a''])"
    using delete_outcome [of "''a''" stored_state remove_failing_env example_env] k x
    by blast
  show ?thesis
    using u first r(2) k t v again x failed by blast
qed

text \<open>
  Claim C7 as it is written has \<open>delete_resource\<close> return whether the identifier
  existed. With \<open>hello world\<close> stored under \<open>a\<close> and an \<^verbatim>\<open>os.remove\<close> that raises,
  the identifier exists and the call returns \<open>False\<close>.
\<close>

theorem delete_known_returns_false_counterexample:
  "''a'' \<in> set (map fst (resources (metadata stored_state))) \<and>
   delete_resource remove_failing_env stored_state ''a''
     = (False, stored_state, [Error_deleting_resource ''a''])"
  unfolding stored_state_eq by (simp add: example_defs model_defs)

subsection \<open>Statistics\<close>

text \<open>
  Claim C8. With \<open>S\<close> the sum of the sizes and \<open>C\<close> the sum of the compressed
  sizes of the records present, \<open>get_storage_stats\<close> reports their number as
  \<open>resource_count\<close>, \<open>S\<close> as \<open>total_size\<close>, \<open>C\<close> as \<open>total_compressed_size\<close>, and as
  \<open>compression_ratio\<close> the quotient of \<open>C\<close> by \<open>S\<close>, or \<open>0\<close> when \<open>S\<close> is \<open>0\<close>. It
  is a function of the state alone, and the call leaves the state as it is.
\<close>

theorem storage_stats_consistent:
  "resource_count (get_storage_stats st) = length (resources (metadata st)) \<and>
   total_size (get_storage_stats st)
     = sum_list (map (size_m \<circ> snd) (resources (metadata st))) \<and>
   total_compressed_size (get_storage_stats st)
     = sum_list (map (compressed_size \<circ> snd) (resources (metadata st))) \<and>
   compression_ratio (get_storage_stats st)
     = (if sum_list (map (size_m \<circ> snd) (resources (metadata st))) = 0 then Int_value 0
        else True_div (sum_list (map (compressed_size \<circ> snd) (resources (metadata st))))
               (sum_list (map (size_m \<circ> snd) (resources (metadata st))))) \<and>
   perform l e st Stats_op = (Stats_res (get_storage_stats st), st)"
proof -
  have t: "totals (map snd (resources (metadata st))) (0, 0)
      = (sum_list (map (size_m \<circ> snd) (resources (metadata st))),
         sum_list (map (compressed_size \<circ> snd) (resources (metadata st))))"
    by (simp add: totals_sum)
  show ?thesis
    unfolding perform.simps
    unfolding get_storage_stats_def Let_def t
    by (cases "sum_list (map (size_m \<circ> snd) (resources (metadata st))) = 0")
       (simp_all del: sum_list_eq_0_iff)
qed

theorem storage_stats_consistent_witness:
  "resource_count (get_storage_stats listing_state) = 3 \<and>
   total_size (get_storage_stats listing_state) = 33 \<and>
   total_compressed_size (get_storage_stats listing_state) = 39 \<and>
   compression_ratio (get_storage_stats listing_state) = True_div 39 33 \<and>
   resource_count (get_storage_stats example_state) = 0 \<and>
   compression_ratio (get_storage_stats example_state) = Int_value 0"
  using storage_stats_consistent [of listing_state example_lib example_env]
    storage_stats_consistent [of example_state example_lib example_env]
  by (simp add: listing_state_def listing_meta_def example_defs)

subsection \<open>The two dictionaries stay in step\<close>

text \<open>
  Claim C9. From any state in which every identifier has a record exactly when
  it has a version counter, each of the operations store, get, list,
  checkVersion, delete and stats leads to a state with the same property, and so
  does every sequence of them.
\<close>

theorem sync_preserved:
  assumes "in_sync (metadata st)"
  shows "in_sync (metadata (snd (perform l e st opn))) \<and>
         in_sync (metadata (run l st steps))"
  using assms by (simp add: in_sync_perform in_sync_run)

theorem sync_preserved_witness:
  "in_sync (metadata example_state) \<and>
   in_sync (metadata (snd (perform example_lib example_env example_state
      (Store_op ''a'' hello_world ''text'' 1 True)))) \<and>
   snd (perform example_lib example_env example_state
      (Store_op ''a'' hello_world ''text'' 1 True)) = stored_state \<and>
   in_sync (metadata (run example_lib example_state
      [(example_env, Store_op ''a'' hello_world ''text'' 1 True),
       (example_env, Get_op ''a''),
       (example_env, Delete_op ''a'')]))"
proof -
  have i: "in_sync (metadata example_state)"
    by (simp add: in_sync_def example_defs)
  show ?thesis
    using sync_preserved [OF i, of example_lib example_env
        "Store_op ''a'' hello_world ''text'' 1 True"
        "[(example_env, Store_op ''a'' hello_world ''text'' 1 True),
          (example_env, Get_op ''a''), (example_env, Delete_op ''a'')]"] i
    by (simp add: first_store_eq)
qed

subsection \<open>What a read changes\<close>

text \<open>
  Claim C10. A successful \<open>get_resource\<close> changes, in the record of the
  identifier, the fields \<open>last_accessed\<close> and \<open>access_count\<close> and nothing else:
  type, size, compressed size, hash, compression flag, priority and creation
  time are as before, and so are the records of all other identifiers, the order
  of the dictionary, every version counter and every payload file.
\<close>

theorem get_resource_frame:
  assumes "get_resource l e st rid = (Some (d, m), st', lg)"
  shows "\<exists>m0. map_of (resources (metadata st)) rid = Some m0 \<and>
           map_of (resources (metadata st')) rid = Some m \<and>
           last_accessed m = now_first e \<and>
           access_count m = access_count m0 + 1 \<and>
           type_m m = type_m m0 \<and> size_m m = size_m m0 \<and>
           compressed_size m = compressed_size m0 \<and> hash m = hash m0 \<and>
           compressed m = compressed m0 \<and> priority m = priority m0 \<and>
           created m = created m0 \<and>
           (\<forall>k. k \<noteq> rid \<longrightarrow>
              map_of (resources (metadata st')) k = map_of (resources (metadata st)) k) \<and>
           map fst (resources (metadata st')) = map fst (resources (metadata st)) \<and>
           versions (metadata st') = versions (metadata st) \<and>
           files st' = files st \<and> resources_dir st' = resources_dir st"
proof -
  from get_resource_served [OF assms] obtain m0 sd where
    m0: "map_of (resources (metadata st)) rid = Some m0"
    and m: "m = m0\<lparr>last_accessed := now_first e, access_count := access_count m0 + 1\<rparr>"
    and st': "st' = fst (save_metadata e (st\<lparr>metadata := (metadata st)\<lparr>resources :=
                   AList.update rid m (resources (metadata st))\<rparr>\<rparr>))"
    by blast
  have keys: "rid \<in> fst ` set (resources (metadata st))"
    using m0 by (force dest: map_of_SomeD)
  have "map fst (AList.update rid m (resources (metadata st)))
      = map fst (resources (metadata st))"
    using keys by (simp add: AList.update_keys)
  then show ?thesis
    using m0 m st'
    by (simp add: save_metadata_metadata save_metadata_files save_metadata_dir
        AList.update_conv')
qed

theorem get_resource_frame_witness:
  "map_option fst (fst (get_resource example_lib example_env stored_state ''a''))
     = Some hello_world \<and>
   map_option (access_count \<circ> snd) (fst (get_resource example_lib example_env stored_state ''a''))
     = Some 1 \<and>
   map_option (last_accessed \<circ> snd)
       (fst (get_resource example_lib example_env stored_state ''a''))
     = Some ''2024-01-01T10:00:00'' \<and>
   map_option (created \<circ> snd) (fst (get_resource example_lib example_env stored_state ''a''))
     = Some ''2024-01-01T10:00:00'' \<and>
   versions (metadata (fst (snd (get_resource example_lib example_env stored_state ''a''))))
     = [(''a'', 1)] \<and>
   files (fst (snd (get_resource example_lib example_env stored_state ''a'')))
     = files stored_state"
proof -
  let ?got = "get_resource example_lib example_env stored_state ''a''"
  have "fst ?got \<noteq> None"
    unfolding stored_state_eq by (simp add: example_defs model_defs)
  then obtain d m where "fst ?got = Some (d, m)"
    by auto
  then have g: "?got = (Some (d, m), fst (snd ?got), snd (snd ?got))"
    by (simp add: prod_eq_iff)
  have d: "map_option fst (fst ?got) = Some hello_world"
    unfolding stored_state_eq by (simp add: example_defs model_defs)
  have v: "versions (metadata stored_state) = [(''a'', 1)]"
    "map_of (resources (metadata stored_state)) ''a''
       = Some \<lparr>type_m = ''text'', size_m = 11, compressed_size = 13,
               hash = ''01001011000'', compressed = True, priority = 1,
               created = ''2024-01-01T10:00:00'',
               last_accessed = ''2024-01-01T10:00:00.000012'',
               access_count = 0\<rparr>"
    "now_first example_env = ''2024-01-01T10:00:00''"
    unfolding stored_state_eq by (simp_all add: example_defs)
  show ?thesis
    using get_resource_frame [OF g] d v \<open>fst ?got = Some (d, m)\<close>
    by auto
qed

end
